theory Spec2Isabelle
  imports Main "HOL-Library.Word"
begin

unbundle bit_operations_syntax

section \<open>The types that zenohutils.py consumes\<close>

text \<open>
  \<^verbatim>\<open>zenohutils.py\<close> imports its data types from the uProtocol and Zenoh libraries.
  A \<^verbatim>\<open>UUri\<close> is a protobuf message with one string field and three unsigned
  integer fields; the module only reads and compares the fields, so they are natural
  numbers here (an unsigned protobuf field is never negative).
\<close>

type_synonym byte = "8 word"
type_synonym bytes = "byte list"

record UUri =
  authority_name :: string
  ue_id :: nat
  ue_version_major :: nat
  resource_id :: nat

text \<open>\<^verbatim>\<open>UUri()\<close>: the message with every field at its default.\<close>

definition UUri_default :: UUri where
  "UUri_default = \<lparr>authority_name = [], ue_id = 0, ue_version_major = 0, resource_id = 0\<rparr>"

text \<open>
  The wildcard sentinels are class constants of \<^verbatim>\<open>UriFactory\<close>, which is not part of
  this module: every function that reads one takes the three constants as a parameter.
\<close>

record UriFactory =
  WILDCARD_ENTITY_ID :: nat
  WILDCARD_ENTITY_VERSION :: nat
  WILDCARD_RESOURCE_ID :: nat

text \<open>The two codes of \<^verbatim>\<open>UCode\<close> the module uses, and the error it raises.\<close>

datatype UCode = INVALID_ARGUMENT | INTERNAL

datatype UStatusError = from_code_message (get_code: UCode) (get_message: string)

datatype UPriority =
    UPRIORITY_UNSPECIFIED
  | UPRIORITY_CS0 | UPRIORITY_CS1 | UPRIORITY_CS2 | UPRIORITY_CS3
  | UPRIORITY_CS4 | UPRIORITY_CS5 | UPRIORITY_CS6

datatype Priority =
    REAL_TIME | INTERACTIVE_HIGH | INTERACTIVE_LOW | DATA_HIGH | DATA | DATA_LOW | BACKGROUND

section \<open>Python primitives\<close>

text \<open>\<^verbatim>\<open>f"{n:X}"\<close>: upper-case hexadecimal, no prefix, no padding.\<close>

definition hex_digit :: "nat \<Rightarrow> char" where
  "hex_digit d = ''0123456789ABCDEF'' ! d"

fun format_X :: "nat \<Rightarrow> string" where
  "format_X n = (if n < 16 then [hex_digit n]
                 else format_X (n div 16) @ [hex_digit (n mod 16)])"

declare format_X.simps [simp del]

text \<open>\<^verbatim>\<open>f"{n}"\<close>: decimal.\<close>

fun format_d :: "nat \<Rightarrow> string" where
  "format_d n = (if n < 10 then [hex_digit n]
                 else format_d (n div 10) @ [hex_digit (n mod 10)])"

declare format_d.simps [simp del]

text \<open>\<^verbatim>\<open>x in range(start, stop)\<close>.\<close>

definition in_range :: "nat \<Rightarrow> nat \<Rightarrow> nat \<Rightarrow> bool" where
  "in_range x start stop = (start \<le> x \<and> x < stop)"

text \<open>
  \<^verbatim>\<open>n.to_bytes(length, byteorder='little')\<close> raises OverflowError (\<open>None\<close>) when
  \<open>n\<close> does not fit; \<^verbatim>\<open>int.from_bytes(bs, byteorder='big')\<close> is total.
\<close>

definition to_bytes_little :: "nat \<Rightarrow> nat \<Rightarrow> bytes option" where
  "to_bytes_little n len =
     (if n < 256 ^ len then Some (map (\<lambda>i. word_of_nat (n div 256 ^ i)) [0..<len])
      else None)"

definition from_bytes_big :: "bytes \<Rightarrow> nat" where
  "from_bytes_big bs = foldl (\<lambda>acc b. acc * 256 + unat b) 0 bs"

section \<open>zenohutils.py\<close>

definition UATTRIBUTE_VERSION :: nat where
  "UATTRIBUTE_VERSION = 1"

text \<open>
  \<^verbatim>\<open>class MessageFlag(IntFlag)\<close>: four members with the values 1, 2, 4 and 8. A
  combination of members is the bitwise OR of their values, and \<^verbatim>\<open>k in flag\<close>
  tests \<^verbatim>\<open>flag & k == k\<close>.
\<close>

datatype MessageFlag = PUBLISH | NOTIFICATION | REQUEST | RESPONSE

fun flag_value :: "MessageFlag \<Rightarrow> nat" where
  "flag_value PUBLISH = 1"
| "flag_value NOTIFICATION = 2"
| "flag_value REQUEST = 4"
| "flag_value RESPONSE = 8"

definition flag_members :: "nat \<Rightarrow> MessageFlag set" where
  "flag_members flag = {k. flag AND flag_value k = flag_value k}"

subsection \<open>uri_to_zenoh_key and to_zenoh_key_string\<close>

definition uri_to_zenoh_key :: "UriFactory \<Rightarrow> string \<Rightarrow> UUri \<Rightarrow> string" where
  "uri_to_zenoh_key uf default_authority uri =
     (let authority = (if authority_name uri = [] then default_authority
                       else authority_name uri);
          ue_id_s = (if ue_id uri = WILDCARD_ENTITY_ID uf then ''*''
                     else format_X (ue_id uri));
          ue_version_major_s =
            (if ue_version_major uri = WILDCARD_ENTITY_VERSION uf then ''*''
             else format_X (ue_version_major uri));
          resource_id_s = (if resource_id uri = WILDCARD_RESOURCE_ID uf then ''*''
                           else format_X (resource_id uri))
      in authority @ ''/'' @ ue_id_s @ ''/'' @ ue_version_major_s @ ''/'' @ resource_id_s)"

text \<open>
  \<^verbatim>\<open>dst_uri and dst_uri != UUri()\<close>: a protobuf message defines neither
  \<^verbatim>\<open>__bool__\<close> nor \<^verbatim>\<open>__len__\<close>, so the first conjunct is false for
  \<^verbatim>\<open>None\<close> only.
\<close>

definition to_zenoh_key_string :: "UriFactory \<Rightarrow> string \<Rightarrow> UUri \<Rightarrow> UUri option \<Rightarrow> string" where
  "to_zenoh_key_string uf default_authority src_uri dst_uri =
     (let src = uri_to_zenoh_key uf default_authority src_uri;
          dst = (case dst_uri of
                   None \<Rightarrow> ''{}/{}/{}/{}''
                 | Some d \<Rightarrow> if d \<noteq> UUri_default then uri_to_zenoh_key uf default_authority d
                             else ''{}/{}/{}/{}'')
      in ''up/'' @ src @ ''/'' @ dst)"

subsection \<open>map_zenoh_priority\<close>

text \<open>The dictionary, and the lookup \<^verbatim>\<open>mapping[upriority]\<close>, where \<open>None\<close> is KeyError.\<close>

definition mapping :: "(UPriority \<times> Priority) list" where
  "mapping =
     [(UPRIORITY_CS0, BACKGROUND),
      (UPRIORITY_CS1, DATA_LOW),
      (UPRIORITY_CS2, DATA),
      (UPRIORITY_CS3, DATA_HIGH),
      (UPRIORITY_CS4, INTERACTIVE_LOW),
      (UPRIORITY_CS5, INTERACTIVE_HIGH),
      (UPRIORITY_CS6, REAL_TIME),
      (UPRIORITY_UNSPECIFIED, DATA_LOW)]"

definition map_zenoh_priority :: "UPriority \<Rightarrow> Priority option" where
  "map_zenoh_priority upriority = map_of mapping upriority"

subsection \<open>get_listener_message_type\<close>

definition rpc_range :: "nat \<Rightarrow> bool" where
  "rpc_range x = in_range x 1 0x7FFF"

definition nonrpc_range :: "nat \<Rightarrow> bool" where
  "nonrpc_range x = in_range x 0x8000 0xFFFE"

text \<open>
  \<^verbatim>\<open>if sink_uuri:\<close> is taken for every sink that is not \<^verbatim>\<open>None\<close> (a protobuf
  message is always true). The four \<^verbatim>\<open>if\<close> statements of that branch run one
  after the other, each on the flag the one before left.
\<close>

definition get_listener_message_type ::
    "UriFactory \<Rightarrow> UUri \<Rightarrow> UUri option \<Rightarrow> UStatusError + nat" where
  "get_listener_message_type uf source_uuri sink_uuri =
     (let wildcard_resource_id = WILDCARD_RESOURCE_ID uf;
          src_resource = resource_id source_uuri;
          flag =
            (case sink_uuri of
               Some sink \<Rightarrow>
                 (let dst_resource = resource_id sink;
                      f1 = (if (nonrpc_range src_resource \<and> dst_resource = 0)
                             \<or> (nonrpc_range src_resource \<and> dst_resource = wildcard_resource_id)
                             \<or> (src_resource = wildcard_resource_id \<and> dst_resource = 0)
                             \<or> (src_resource = wildcard_resource_id
                                 \<and> dst_resource = wildcard_resource_id)
                            then 0 OR flag_value NOTIFICATION else 0);
                      f2 = (if (src_resource = 0 \<and> rpc_range dst_resource)
                             \<or> (src_resource = 0 \<and> dst_resource = wildcard_resource_id)
                             \<or> (src_resource = wildcard_resource_id \<and> rpc_range dst_resource)
                             \<or> (src_resource = wildcard_resource_id
                                 \<and> dst_resource = wildcard_resource_id)
                            then f1 OR flag_value REQUEST else f1);
                      f3 = (if (rpc_range src_resource \<and> dst_resource = 0)
                             \<or> (rpc_range src_resource \<and> dst_resource = wildcard_resource_id)
                             \<or> (src_resource = wildcard_resource_id \<and> dst_resource = 0)
                             \<or> (src_resource = wildcard_resource_id
                                 \<and> dst_resource = wildcard_resource_id)
                            then f2 OR flag_value RESPONSE else f2);
                      f4 = (if dst_resource = wildcard_resource_id
                               \<and> (nonrpc_range src_resource
                                    \<or> src_resource = wildcard_resource_id)
                            then f3 OR flag_value PUBLISH else f3)
                  in f4)
             | None \<Rightarrow>
                 (if nonrpc_range src_resource \<or> src_resource = wildcard_resource_id
                  then 0 OR flag_value PUBLISH else 0))
      in if flag = 0
         then Inl (from_code_message INTERNAL ''Wrong combination of source UUri and sink UUri'')
         else Inr flag)"

subsection \<open>uattributes_to_attachment and attachment_to_uattributes\<close>

text \<open>
  \<^verbatim>\<open>UAttributes\<close> and its \<^verbatim>\<open>SerializeToString\<close> and \<^verbatim>\<open>ParseFromString\<close> belong to
  the protobuf library: the attributes are a type parameter and the two methods are
  function parameters. \<^verbatim>\<open>ParseFromString\<close> raises DecodeError with a message
  (\<open>Inl\<close>) or yields the parsed message.
\<close>

definition uattributes_to_attachment :: "('a \<Rightarrow> bytes) \<Rightarrow> 'a \<Rightarrow> bytes list option" where
  "uattributes_to_attachment SerializeToString uattributes =
     (case to_bytes_little UATTRIBUTE_VERSION 1 of
        None \<Rightarrow> None
      | Some version_bytes \<Rightarrow>
          (let uattributes_bytes = SerializeToString uattributes;
               attachment_bytes = [version_bytes, uattributes_bytes]
           in Some attachment_bytes))"

text \<open>
  The exceptions that the body of the \<^verbatim>\<open>try\<close> can raise: the three
  \<^verbatim>\<open>UStatusError\<close>s it raises itself, IndexError from \<^verbatim>\<open>attachment_bytes[1]\<close> on a
  list of one chunk, and DecodeError from the parser. \<^verbatim>\<open>str(e)\<close> of a
  \<^verbatim>\<open>UStatusError\<close> is decided by that class, so it is a parameter.
\<close>

datatype exn = UStatusError_exn UStatusError | IndexError | DecodeError string

definition str_exn :: "(UStatusError \<Rightarrow> string) \<Rightarrow> exn \<Rightarrow> string" where
  "str_exn str_status e =
     (case e of
        UStatusError_exn s \<Rightarrow> str_status s
      | IndexError \<Rightarrow> ''list index out of range''
      | DecodeError m \<Rightarrow> m)"

definition attachment_try_body :: "(bytes \<Rightarrow> string + 'a) \<Rightarrow> bytes list \<Rightarrow> exn + 'a" where
  "attachment_try_body ParseFromString attachment_bytes =
     (if length attachment_bytes < 1
      then Inl (UStatusError_exn
                  (from_code_message INVALID_ARGUMENT ''Unable to get the UAttributes version''))
      else
        let version = from_bytes_big (attachment_bytes ! 0) in
        if version \<noteq> UATTRIBUTE_VERSION
        then Inl (UStatusError_exn
                    (from_code_message INVALID_ARGUMENT
                       (''UAttributes version is '' @ format_d version
                        @ '' (should be '' @ format_d UATTRIBUTE_VERSION @ '')'')))
        else if \<not> 1 < length attachment_bytes then Inl IndexError
        else
          let uattributes_data = attachment_bytes ! 1 in
          if uattributes_data = []
          then Inl (UStatusError_exn
                      (from_code_message INVALID_ARGUMENT ''Unable to get the UAttributes''))
          else (case ParseFromString uattributes_data of
                  Inl m \<Rightarrow> Inl (DecodeError m)
                | Inr uattributes \<Rightarrow> Inr uattributes))"

definition attachment_to_uattributes ::
    "(UStatusError \<Rightarrow> string) \<Rightarrow> (bytes \<Rightarrow> string + 'a) \<Rightarrow> bytes list \<Rightarrow> UStatusError + 'a" where
  "attachment_to_uattributes str_status ParseFromString attachment =
     (case attachment_try_body ParseFromString attachment of
        Inr uattributes \<Rightarrow> Inr uattributes
      | Inl e \<Rightarrow>
          Inl (from_code_message INVALID_ARGUMENT
                 (''Failed to convert Attachment to UAttributes: '' @ str_exn str_status e)))"

section \<open>The classification rules as the specification words them\<close>

text \<open>
  The specification's two ranges, both ends inclusive, and its four predicates on the
  source resource id \<open>Rs\<close>, the destination resource id \<open>Rd\<close> and the wildcard \<open>W\<close>.
\<close>

definition RPC :: "nat set" where
  "RPC = {1..0x7FFE}"

definition NONRPC :: "nat set" where
  "NONRPC = {0x8000..0xFFFD}"

fun kind_holds :: "nat \<Rightarrow> nat \<Rightarrow> nat \<Rightarrow> MessageFlag \<Rightarrow> bool" where
  "kind_holds W Rs Rd NOTIFICATION = ((Rs \<in> NONRPC \<or> Rs = W) \<and> (Rd = 0 \<or> Rd = W))"
| "kind_holds W Rs Rd REQUEST = ((Rs = 0 \<or> Rs = W) \<and> (Rd \<in> RPC \<or> Rd = W))"
| "kind_holds W Rs Rd RESPONSE = ((Rs \<in> RPC \<or> Rs = W) \<and> (Rd = 0 \<or> Rd = W))"
| "kind_holds W Rs Rd PUBLISH = (Rd = W \<and> (Rs \<in> NONRPC \<or> Rs = W))"

definition spec_kinds :: "nat \<Rightarrow> nat \<Rightarrow> nat \<Rightarrow> MessageFlag set" where
  "spec_kinds W Rs Rd = {k. kind_holds W Rs Rd k}"

text \<open>The flag that holds exactly the kinds whose predicate is true.\<close>

definition sink_flag :: "nat \<Rightarrow> nat \<Rightarrow> nat \<Rightarrow> nat" where
  "sink_flag W Rs Rd =
     (if kind_holds W Rs Rd NOTIFICATION then 2 else 0) +
     (if kind_holds W Rs Rd REQUEST then 4 else 0) +
     (if kind_holds W Rs Rd RESPONSE then 8 else 0) +
     (if kind_holds W Rs Rd PUBLISH then 1 else 0)"

text \<open>The error of \<^verbatim>\<open>get_listener_message_type\<close>.\<close>

definition wrong_combination :: UStatusError where
  "wrong_combination =
     from_code_message INTERNAL ''Wrong combination of source UUri and sink UUri''"

section \<open>Concrete inputs\<close>

text \<open>
  Sentinels to evaluate on: the docstring of \<^verbatim>\<open>get_listener_message_type\<close> writes the
  resource-id wildcard as FFFF.
\<close>

definition uf_FFFF :: UriFactory where
  "uf_FFFF = \<lparr>WILDCARD_ENTITY_ID = 0xFFFF, WILDCARD_ENTITY_VERSION = 0xFF,
              WILDCARD_RESOURCE_ID = 0xFFFF\<rparr>"

definition uuri_rid :: "nat \<Rightarrow> UUri" where
  "uuri_rid r = \<lparr>authority_name = ''vehicle'', ue_id = 0x12, ue_version_major = 1,
                 resource_id = r\<rparr>"

section \<open>Hexadecimal rendering as the specification words it\<close>

text \<open>
  The value of an upper-case hexadecimal digit, the number a digit string denotes, and
  what it means for a string to be the upper-case, unpadded hexadecimal representation
  of a number: digits only, denoting the number, with no leading zero. A key segment
  renders a field when it is \<open>*\<close> for the wildcard and that representation otherwise.
\<close>

definition hex_digit_value :: "char \<Rightarrow> nat" where
  "hex_digit_value c = length (takeWhile (\<lambda>x. x \<noteq> c) ''0123456789ABCDEF'')"

definition hex_value :: "string \<Rightarrow> nat" where
  "hex_value s = foldl (\<lambda>acc c. acc * 16 + hex_digit_value c) 0 s"

definition upper_hex_digits :: "char set" where
  "upper_hex_digits = set ''0123456789ABCDEF''"

definition is_upper_hex_of :: "string \<Rightarrow> nat \<Rightarrow> bool" where
  "is_upper_hex_of s n =
     (s \<noteq> [] \<and> set s \<subseteq> upper_hex_digits \<and> hex_value s = n
      \<and> (hd s = CHR ''0'' \<longrightarrow> s = ''0''))"

definition renders :: "nat \<Rightarrow> nat \<Rightarrow> string \<Rightarrow> bool" where
  "renders wildcard field s =
     (if field = wildcard then s = ''*'' else is_upper_hex_of s field)"

section \<open>A codec to evaluate the envelope on\<close>

text \<open>
  One instance of the external serialiser: the proto3 wire form of a
  \<^verbatim>\<open>UAttributes\<close> message in which only the priority (field 5, an enum sent as a
  varint, tag byte 0x28) is set, \<^verbatim>\<open>UPRIORITY_UNSPECIFIED\<close> being the enum's
  default 0. proto3 leaves a field at its default out of the wire form, so the default
  message is the empty byte string.
\<close>

fun priority_number :: "UPriority \<Rightarrow> nat" where
  "priority_number UPRIORITY_UNSPECIFIED = 0"
| "priority_number UPRIORITY_CS0 = 1"
| "priority_number UPRIORITY_CS1 = 2"
| "priority_number UPRIORITY_CS2 = 3"
| "priority_number UPRIORITY_CS3 = 4"
| "priority_number UPRIORITY_CS4 = 5"
| "priority_number UPRIORITY_CS5 = 6"
| "priority_number UPRIORITY_CS6 = 7"

definition SerializeToString_priority :: "UPriority \<Rightarrow> bytes" where
  "SerializeToString_priority p =
     (if p = UPRIORITY_UNSPECIFIED then [] else [0x28, word_of_nat (priority_number p)])"

text \<open>
  What the evaluations below need of the external parser, and no more: it reads the bytes
  0x28 0x04 as the message with priority CS3, it raises DecodeError with some message
  \<open>m\<close> on the truncated field 0x28, and on any other input it is an arbitrary parser
  \<open>R\<close>.
\<close>

definition ParseFromString_known ::
    "(bytes \<Rightarrow> string + UPriority) \<Rightarrow> string \<Rightarrow> bytes \<Rightarrow> string + UPriority" where
  "ParseFromString_known R m bs =
     (if bs = [0x28, 4] then Inr UPRIORITY_CS3
      else if bs = [0x28] then Inl m
      else R bs)"

text \<open>The error that the \<^verbatim>\<open>except\<close> clause of \<^verbatim>\<open>attachment_to_uattributes\<close> raises.\<close>

definition failed_to_convert :: "string \<Rightarrow> UStatusError" where
  "failed_to_convert m =
     from_code_message INVALID_ARGUMENT (''Failed to convert Attachment to UAttributes: '' @ m)"

section \<open>The message-type classifier\<close>

lemma rpc_range_iff: "rpc_range x \<longleftrightarrow> x \<in> RPC"
  by (auto simp: rpc_range_def in_range_def RPC_def)

lemma nonrpc_range_iff: "nonrpc_range x \<longleftrightarrow> x \<in> NONRPC"
  by (auto simp: nonrpc_range_def in_range_def NONRPC_def)

lemma flag_members_iff:
  "k \<in> flag_members flag \<longleftrightarrow> flag AND flag_value k = flag_value k"
  by (simp add: flag_members_def)

text \<open>Each condition of the source, a disjunction of four cases, is one predicate.\<close>

lemma notification_cond:
  "(nonrpc_range s \<and> d = 0) \<or> (nonrpc_range s \<and> d = w) \<or> (s = w \<and> d = 0) \<or> (s = w \<and> d = w)
     \<longleftrightarrow> kind_holds w s d NOTIFICATION"
  by (auto simp: nonrpc_range_iff)

lemma request_cond:
  "(s = 0 \<and> rpc_range d) \<or> (s = 0 \<and> d = w) \<or> (s = w \<and> rpc_range d) \<or> (s = w \<and> d = w)
     \<longleftrightarrow> kind_holds w s d REQUEST"
  by (auto simp: rpc_range_iff)

lemma response_cond:
  "(rpc_range s \<and> d = 0) \<or> (rpc_range s \<and> d = w) \<or> (s = w \<and> d = 0) \<or> (s = w \<and> d = w)
     \<longleftrightarrow> kind_holds w s d RESPONSE"
  by (auto simp: rpc_range_iff)

lemma publish_cond:
  "d = w \<and> (nonrpc_range s \<or> s = w) \<longleftrightarrow> kind_holds w s d PUBLISH"
  by (auto simp: nonrpc_range_iff)

text \<open>The four updates of the flag, for any outcome of the four conditions.\<close>

lemma accumulate:
  "(let f1 = (if n then 0 OR flag_value NOTIFICATION else 0);
        f2 = (if q then f1 OR flag_value REQUEST else f1);
        f3 = (if r then f2 OR flag_value RESPONSE else f2);
        f4 = (if p then f3 OR flag_value PUBLISH else f3)
    in f4)
   = (if n then 2 else 0) + (if q then 4 else 0) + (if r then 8 else 0) + (if p then 1 else 0)"
  by (cases n; cases q; cases r; cases p; simp)

lemma get_listener_message_type_sink:
  "get_listener_message_type uf src (Some dst) =
     (let f = sink_flag (WILDCARD_RESOURCE_ID uf) (resource_id src) (resource_id dst)
      in if f = 0 then Inl wrong_combination else Inr f)"
proof -
  let ?w = "WILDCARD_RESOURCE_ID uf" and ?s = "resource_id src" and ?d = "resource_id dst"
  have "get_listener_message_type uf src (Some dst) =
     (let f = (let f1 = (if kind_holds ?w ?s ?d NOTIFICATION
                         then 0 OR flag_value NOTIFICATION else 0);
                   f2 = (if kind_holds ?w ?s ?d REQUEST then f1 OR flag_value REQUEST else f1);
                   f3 = (if kind_holds ?w ?s ?d RESPONSE then f2 OR flag_value RESPONSE else f2);
                   f4 = (if kind_holds ?w ?s ?d PUBLISH then f3 OR flag_value PUBLISH else f3)
               in f4)
      in if f = 0 then Inl wrong_combination else Inr f)"
    unfolding get_listener_message_type_def wrong_combination_def
    by (simp only: notification_cond request_cond response_cond publish_cond Let_def
          option.case)
  then show ?thesis
    by (simp only: accumulate sink_flag_def)
qed

lemma get_listener_message_type_no_sink:
  "get_listener_message_type uf src None =
     (if resource_id src \<in> NONRPC \<or> resource_id src = WILDCARD_RESOURCE_ID uf
      then Inr (flag_value PUBLISH) else Inl wrong_combination)"
  unfolding get_listener_message_type_def wrong_combination_def
  by (simp add: nonrpc_range_iff)

lemma flag_sum_members:
  "((if n then 2 else 0) + (if q then 4 else 0) + (if r then 8 else 0) + (if p then 1 else (0::nat)))
      AND flag_value k = flag_value k
   \<longleftrightarrow> (case k of PUBLISH \<Rightarrow> p | NOTIFICATION \<Rightarrow> n | REQUEST \<Rightarrow> q | RESPONSE \<Rightarrow> r)"
  by (cases k; cases n; cases q; cases r; cases p; simp)

lemma sink_flag_members:
  "k \<in> flag_members (sink_flag W Rs Rd) \<longleftrightarrow> kind_holds W Rs Rd k"
  unfolding flag_members_iff sink_flag_def flag_sum_members
  by (cases k) (simp_all only: MessageFlag.case)

lemma sink_flag_zero: "sink_flag W Rs Rd = 0 \<longleftrightarrow> (\<forall>k. \<not> kind_holds W Rs Rd k)"
proof -
  have "(\<forall>k. \<not> kind_holds W Rs Rd k) \<longleftrightarrow>
          \<not> kind_holds W Rs Rd NOTIFICATION \<and> \<not> kind_holds W Rs Rd REQUEST
        \<and> \<not> kind_holds W Rs Rd RESPONSE \<and> \<not> kind_holds W Rs Rd PUBLISH"
    by (metis MessageFlag.exhaust)
  moreover have "sink_flag W Rs Rd = 0 \<longleftrightarrow>
          \<not> kind_holds W Rs Rd NOTIFICATION \<and> \<not> kind_holds W Rs Rd REQUEST
        \<and> \<not> kind_holds W Rs Rd RESPONSE \<and> \<not> kind_holds W Rs Rd PUBLISH"
    unfolding sink_flag_def by (simp del: kind_holds.simps)
  ultimately show ?thesis by (simp only:)
qed

lemma sink_flag_bound: "sink_flag W Rs Rd < 16"
  unfolding sink_flag_def by (simp del: kind_holds.simps)

lemma flag_members_publish: "flag_members (flag_value PUBLISH) = {PUBLISH}"
proof -
  have "k \<in> flag_members (flag_value PUBLISH) \<longleftrightarrow> k = PUBLISH" for k
    unfolding flag_members_iff by (cases k) simp_all
  then show ?thesis by blast
qed

text \<open>
  Claim C1. With a destination supplied, the classifier returns a flag whose members are
  exactly the kinds whose predicate of the specification holds for the two resource ids
  (and no bit beyond the four members), and it raises the INTERNAL error exactly when no
  predicate holds.
\<close>

theorem classifier_with_destination:
  "case get_listener_message_type uf src (Some dst) of
     Inl e \<Rightarrow> e = wrong_combination
              \<and> spec_kinds (WILDCARD_RESOURCE_ID uf) (resource_id src) (resource_id dst) = {}
   | Inr flag \<Rightarrow> flag_members flag
                    = spec_kinds (WILDCARD_RESOURCE_ID uf) (resource_id src) (resource_id dst)
              \<and> spec_kinds (WILDCARD_RESOURCE_ID uf) (resource_id src) (resource_id dst) \<noteq> {}
              \<and> flag < 16"
proof -
  let ?f = "sink_flag (WILDCARD_RESOURCE_ID uf) (resource_id src) (resource_id dst)"
  let ?S = "spec_kinds (WILDCARD_RESOURCE_ID uf) (resource_id src) (resource_id dst)"
  have m: "flag_members ?f = ?S"
    unfolding spec_kinds_def using sink_flag_members by blast
  have z: "?f = 0 \<longleftrightarrow> ?S = {}"
    unfolding spec_kinds_def using sink_flag_zero by blast
  show ?thesis
    unfolding get_listener_message_type_sink Let_def
    using m z sink_flag_bound by (simp split: sum.split)
qed

text \<open>
  Two runs of C1: a topic source with a wildcard destination is both a notification and
  a publication, and source 0 with destination 0 is no kind at all.
\<close>

theorem classifier_with_destination_witness:
  "get_listener_message_type uf_FFFF (uuri_rid 0x8001) (Some (uuri_rid 0xFFFF)) = Inr 3
   \<and> spec_kinds 0xFFFF 0x8001 0xFFFF = flag_members 3
   \<and> get_listener_message_type uf_FFFF (uuri_rid 0) (Some (uuri_rid 0)) = Inl wrong_combination
   \<and> spec_kinds 0xFFFF 0 0 = {}"
proof -
  have a: "get_listener_message_type uf_FFFF (uuri_rid 0x8001) (Some (uuri_rid 0xFFFF)) = Inr 3"
    by (simp add: get_listener_message_type_sink uf_FFFF_def uuri_rid_def sink_flag_def
          RPC_def NONRPC_def)
  have b: "get_listener_message_type uf_FFFF (uuri_rid 0) (Some (uuri_rid 0)) = Inl wrong_combination"
    by (simp add: get_listener_message_type_sink uf_FFFF_def uuri_rid_def sink_flag_def
          RPC_def NONRPC_def)
  from a classifier_with_destination [of uf_FFFF "uuri_rid 0x8001" "uuri_rid 0xFFFF"]
  have "spec_kinds 0xFFFF 0x8001 0xFFFF = flag_members 3"
    by (simp add: uf_FFFF_def uuri_rid_def)
  moreover from b classifier_with_destination [of uf_FFFF "uuri_rid 0" "uuri_rid 0"]
  have "spec_kinds 0xFFFF 0 0 = {}"
    by (simp add: uf_FFFF_def uuri_rid_def)
  ultimately show ?thesis using a b by simp
qed

text \<open>
  Claim C2. With no destination the classifier returns the flag of the single kind
  Publish when the source resource id is in NONRPC or is the wildcard, and raises the
  error otherwise.
\<close>

theorem classifier_without_destination:
  "get_listener_message_type uf src None =
     (if resource_id src \<in> NONRPC \<or> resource_id src = WILDCARD_RESOURCE_ID uf
      then Inr (flag_value PUBLISH) else Inl wrong_combination)
   \<and> flag_members (flag_value PUBLISH) = {PUBLISH}"
  using get_listener_message_type_no_sink flag_members_publish by simp

text \<open>Three runs of C2: a topic, the wildcard, and a method id.\<close>

theorem classifier_without_destination_witness:
  "get_listener_message_type uf_FFFF (uuri_rid 0x8001) None = Inr 1
   \<and> get_listener_message_type uf_FFFF (uuri_rid 0xFFFF) None = Inr 1
   \<and> get_listener_message_type uf_FFFF (uuri_rid 0x42) None = Inl wrong_combination"
  using classifier_without_destination [of uf_FFFF "uuri_rid 0x8001"]
    classifier_without_destination [of uf_FFFF "uuri_rid 0xFFFF"]
    classifier_without_destination [of uf_FFFF "uuri_rid 0x42"]
  by (simp add: uf_FFFF_def uuri_rid_def NONRPC_def)

text \<open>
  Claim C7. The ranges of the source are [1, 0x7FFE] and [0x8000, 0xFFFD]; 0xFFFE is in
  neither, and unless it is itself the wildcard sentinel, a source or a destination with
  that resource id makes the classification fail, whatever the other side is.
\<close>

theorem resource_id_FFFE_is_in_no_range:
  "(rpc_range x \<longleftrightarrow> 1 \<le> x \<and> x \<le> 0x7FFE)
   \<and> (nonrpc_range x \<longleftrightarrow> 0x8000 \<le> x \<and> x \<le> 0xFFFD)
   \<and> \<not> rpc_range 0xFFFE \<and> \<not> nonrpc_range 0xFFFE
   \<and> (WILDCARD_RESOURCE_ID uf \<noteq> 0xFFFE \<longrightarrow>
        (resource_id src = 0xFFFE \<longrightarrow> get_listener_message_type uf src sink = Inl wrong_combination)
      \<and> (resource_id dst = 0xFFFE \<longrightarrow>
           get_listener_message_type uf src (Some dst) = Inl wrong_combination))"
proof -
  have r: "(rpc_range x \<longleftrightarrow> 1 \<le> x \<and> x \<le> 0x7FFE)"
    "(nonrpc_range x \<longleftrightarrow> 0x8000 \<le> x \<and> x \<le> 0xFFFD)"
    "\<not> rpc_range 0xFFFE" "\<not> nonrpc_range 0xFFFE"
    by (auto simp: rpc_range_def nonrpc_range_def in_range_def)
  have s: "get_listener_message_type uf src sink = Inl wrong_combination"
    if "WILDCARD_RESOURCE_ID uf \<noteq> 0xFFFE" "resource_id src = 0xFFFE"
  proof (cases sink)
    case None
    with that show ?thesis
      by (simp add: get_listener_message_type_no_sink NONRPC_def)
  next
    case (Some d)
    have "\<not> kind_holds (WILDCARD_RESOURCE_ID uf) 0xFFFE (resource_id d) k" for k
      using that(1) by (cases k) (auto simp: RPC_def NONRPC_def)
    then have "sink_flag (WILDCARD_RESOURCE_ID uf) 0xFFFE (resource_id d) = 0"
      unfolding sink_flag_zero by blast
    with that Some show ?thesis
      by (simp add: get_listener_message_type_sink)
  qed
  have d: "get_listener_message_type uf src (Some dst) = Inl wrong_combination"
    if "WILDCARD_RESOURCE_ID uf \<noteq> 0xFFFE" "resource_id dst = 0xFFFE"
  proof -
    have "\<not> kind_holds (WILDCARD_RESOURCE_ID uf) (resource_id src) 0xFFFE k" for k
      using that(1) by (cases k) (auto simp: RPC_def NONRPC_def)
    then have "sink_flag (WILDCARD_RESOURCE_ID uf) (resource_id src) 0xFFFE = 0"
      unfolding sink_flag_zero by blast
    with that show ?thesis
      by (simp add: get_listener_message_type_sink)
  qed
  from r s d show ?thesis by blast
qed

text \<open>C7 at the wildcard FFFF, with 0xFFFE on the source side and on the destination side.\<close>

theorem resource_id_FFFE_is_in_no_range_witness:
  "WILDCARD_RESOURCE_ID uf_FFFF \<noteq> 0xFFFE
   \<and> get_listener_message_type uf_FFFF (uuri_rid 0xFFFE) (Some (uuri_rid 0)) = Inl wrong_combination
   \<and> get_listener_message_type uf_FFFF (uuri_rid 0xFFFE) None = Inl wrong_combination
   \<and> get_listener_message_type uf_FFFF (uuri_rid 0) (Some (uuri_rid 0xFFFE)) = Inl wrong_combination"
proof -
  have w: "WILDCARD_RESOURCE_ID uf_FFFF \<noteq> 0xFFFE"
    by (simp add: uf_FFFF_def)
  show ?thesis
    using w resource_id_FFFE_is_in_no_range [of _ uf_FFFF "uuri_rid 0xFFFE" "Some (uuri_rid 0)"]
      resource_id_FFFE_is_in_no_range [of _ uf_FFFF "uuri_rid 0xFFFE" None]
      resource_id_FFFE_is_in_no_range [of _ uf_FFFF "uuri_rid 0" _ "uuri_rid 0xFFFE"]
    by (simp add: uuri_rid_def)
qed

text \<open>
  Claim C10. With a destination supplied, a returned flag that has Publish among its
  members has Notification too.
\<close>

theorem publish_implies_notification:
  assumes "get_listener_message_type uf src (Some dst) = Inr flag"
    and "PUBLISH \<in> flag_members flag"
  shows "NOTIFICATION \<in> flag_members flag"
proof -
  from assms(1) have f: "flag = sink_flag (WILDCARD_RESOURCE_ID uf) (resource_id src) (resource_id dst)"
    by (simp add: get_listener_message_type_sink Let_def split: if_splits)
  from assms(2) have "kind_holds (WILDCARD_RESOURCE_ID uf) (resource_id src) (resource_id dst) PUBLISH"
    unfolding f sink_flag_members .
  then have "kind_holds (WILDCARD_RESOURCE_ID uf) (resource_id src) (resource_id dst) NOTIFICATION"
    by simp
  then show ?thesis
    unfolding f sink_flag_members .
qed

text \<open>C10 on a topic source with a wildcard destination.\<close>

theorem publish_implies_notification_witness:
  "get_listener_message_type uf_FFFF (uuri_rid 0x8001) (Some (uuri_rid 0xFFFF)) = Inr 3
   \<and> PUBLISH \<in> flag_members 3 \<and> NOTIFICATION \<in> flag_members 3"
proof -
  have a: "get_listener_message_type uf_FFFF (uuri_rid 0x8001) (Some (uuri_rid 0xFFFF)) = Inr 3"
    by (simp add: get_listener_message_type_sink uf_FFFF_def uuri_rid_def sink_flag_def
          RPC_def NONRPC_def)
  have b: "PUBLISH \<in> flag_members 3"
    by (simp add: flag_members_iff)
  from publish_implies_notification [OF a b] a b show ?thesis by simp
qed

section \<open>The key mapper\<close>

lemma lt16_cases:
  "d < 16 \<Longrightarrow> d \<in> {0, 1, 2, 3, 4, 5, 6, 7, 8, 9, 10, 11, 12, 13, 14, 15::nat}"
  by simp arith

lemma hex_digit_table:
  "map hex_digit [0, 1, 2, 3, 4, 5, 6, 7, 8, 9, 10, 11, 12, 13, 14, 15] = ''0123456789ABCDEF''"
  by (simp add: hex_digit_def)

lemma hex_digit_value_table:
  "map hex_digit_value ''0123456789ABCDEF'' = [0, 1, 2, 3, 4, 5, 6, 7, 8, 9, 10, 11, 12, 13, 14, 15]"
  by (simp add: hex_digit_value_def)


lemma nth_iota16:
  "d < 16 \<Longrightarrow> [0, 1, 2, 3, 4, 5, 6, 7, 8, 9, 10, 11, 12, 13, 14, 15::nat] ! d = d"
  using lt16_cases [of d] by auto

lemma hex_digit_in: "d < 16 \<Longrightarrow> hex_digit d \<in> upper_hex_digits"
  unfolding hex_digit_def upper_hex_digits_def by (rule nth_mem) simp

lemma hex_digit_value_digit:
  assumes "d < 16"
  shows "hex_digit_value (hex_digit d) = d"
proof -
  have "hex_digit_value (hex_digit d) = map hex_digit_value ''0123456789ABCDEF'' ! d"
    unfolding hex_digit_def using assms by (subst nth_map) simp_all
  then show ?thesis
    unfolding hex_digit_value_table using assms by (simp only: nth_iota16)
qed

lemma hex_digit_zero:
  assumes "d < 16"
  shows "hex_digit d = CHR ''0'' \<longleftrightarrow> d = 0"
proof
  assume "hex_digit d = CHR ''0''"
  then have "hex_digit_value (hex_digit d) = hex_digit_value CHR ''0''" by simp
  then show "d = 0"
    unfolding hex_digit_value_digit [OF assms] by (simp add: hex_digit_value_def)
next
  assume "d = 0"
  then show "hex_digit d = CHR ''0''" by (simp add: hex_digit_def)
qed

lemma upper_hex_digit_is_hex_digit:
  assumes "c \<in> upper_hex_digits"
  obtains d where "d < 16" and "c = hex_digit d"
proof -
  from assms obtain i where "i < length ''0123456789ABCDEF''" and "''0123456789ABCDEF'' ! i = c"
    unfolding upper_hex_digits_def in_set_conv_nth by blast
  then have "i < 16" and "c = hex_digit i"
    by (simp_all add: hex_digit_def)
  then show thesis by (rule that)
qed

lemma hex_value_snoc: "hex_value (s @ [c]) = hex_value s * 16 + hex_digit_value c"
  by (simp add: hex_value_def)

lemma hex_value_single: "hex_value [c] = hex_digit_value c"
  by (simp add: hex_value_def)

lemma format_X_is_upper_hex: "is_upper_hex_of (format_X n) n"
proof (induction n rule: format_X.induct)
  case (1 n)
  show ?case
  proof (cases "n < 16")
    case True
    then show ?thesis
      by (simp add: format_X.simps [of n] is_upper_hex_of_def hex_digit_in hex_value_single
            hex_digit_value_digit hex_digit_zero)
  next
    case False
    with 1 have ih: "is_upper_hex_of (format_X (n div 16)) (n div 16)" by simp
    have m: "n mod 16 < 16" by simp
    from False have pos: "n div 16 \<noteq> 0" by simp
    let ?s = "format_X (n div 16)"
    from ih have ne: "?s \<noteq> []" and dg: "set ?s \<subseteq> upper_hex_digits"
      and v: "hex_value ?s = n div 16" and lead: "hd ?s = CHR ''0'' \<longrightarrow> ?s = ''0''"
      by (simp_all add: is_upper_hex_of_def)
    have "hd ?s \<noteq> CHR ''0''"
    proof
      assume "hd ?s = CHR ''0''"
      with lead have "?s = ''0''" by simp
      with v have "n div 16 = hex_value ''0''" by simp
      also have "\<dots> = 0" by (simp add: hex_value_def hex_digit_value_def)
      finally show False using pos by simp
    qed
    moreover have "format_X n = ?s @ [hex_digit (n mod 16)]"
      using False by (simp add: format_X.simps [of n])
    moreover have "hex_value (?s @ [hex_digit (n mod 16)]) = n"
      by (simp add: hex_value_snoc v hex_digit_value_digit [OF m])
    ultimately show ?thesis
      using ne dg hex_digit_in [OF m] by (simp add: is_upper_hex_of_def)
  qed
qed

lemma upper_hex_unique: "is_upper_hex_of s n \<Longrightarrow> s = format_X n"
proof (induction s arbitrary: n rule: rev_induct)
  case Nil
  then show ?case by (simp add: is_upper_hex_of_def)
next
  case (snoc c xs)
  from snoc.prems have c: "c \<in> upper_hex_digits" and xs: "set xs \<subseteq> upper_hex_digits"
    and n: "n = hex_value xs * 16 + hex_digit_value c"
    and lead: "hd (xs @ [c]) = CHR ''0'' \<longrightarrow> xs @ [c] = ''0''"
    by (simp_all add: is_upper_hex_of_def hex_value_snoc)
  from c obtain d where d: "d < 16" "c = hex_digit d"
    by (rule upper_hex_digit_is_hex_digit)
  then have dv: "hex_digit_value c = d"
    by (simp add: hex_digit_value_digit)
  show ?case
  proof (cases "xs = []")
    case True
    with n dv have "n = d" by (simp add: hex_value_def)
    with d True show ?thesis by (simp add: format_X.simps [of d])
  next
    case False
    then have "hd (xs @ [c]) = hd xs" by simp
    with lead False have h: "hd xs \<noteq> CHR ''0''" by auto
    with False xs have "is_upper_hex_of xs (hex_value xs)"
      by (simp add: is_upper_hex_of_def)
    then have ih: "xs = format_X (hex_value xs)" by (rule snoc.IH)
    have "hex_value xs \<noteq> 0"
    proof
      assume "hex_value xs = 0"
      with ih have "xs = format_X 0" by simp
      then have "xs = ''0''" by (simp add: format_X.simps [of 0] hex_digit_def)
      with h show False by simp
    qed
    with n dv d have "\<not> n < 16" and "n div 16 = hex_value xs" and "n mod 16 = d"
      by simp_all
    then have "format_X n = format_X (hex_value xs) @ [hex_digit d]"
      by (simp add: format_X.simps [of n])
    with ih d show ?thesis by simp
  qed
qed

lemma renders_format_X: "renders w f (if f = w then ''*'' else format_X f)"
  by (simp add: renders_def format_X_is_upper_hex)

lemma renders_unique: "renders w f s \<Longrightarrow> s = (if f = w then ''*'' else format_X f)"
  by (auto simp: renders_def dest: upper_hex_unique)

text \<open>
  Claim C6. The key of one address is the authority (the address's own when it is not
  empty, the default otherwise) and three segments joined by \<open>/\<close>, in the order entity
  id, major version, resource id; each segment is \<open>*\<close> when the field is that field's
  wildcard and the upper-case unpadded hexadecimal representation of the field
  otherwise.
\<close>

theorem uri_to_zenoh_key_segments:
  "\<exists>e v r. uri_to_zenoh_key uf default_authority uri =
       (if authority_name uri \<noteq> [] then authority_name uri else default_authority)
         @ ''/'' @ e @ ''/'' @ v @ ''/'' @ r
     \<and> renders (WILDCARD_ENTITY_ID uf) (ue_id uri) e
     \<and> renders (WILDCARD_ENTITY_VERSION uf) (ue_version_major uri) v
     \<and> renders (WILDCARD_RESOURCE_ID uf) (resource_id uri) r"
proof (intro exI conjI)
  show "uri_to_zenoh_key uf default_authority uri =
       (if authority_name uri \<noteq> [] then authority_name uri else default_authority)
         @ ''/'' @ (if ue_id uri = WILDCARD_ENTITY_ID uf then ''*'' else format_X (ue_id uri))
         @ ''/'' @ (if ue_version_major uri = WILDCARD_ENTITY_VERSION uf then ''*''
                    else format_X (ue_version_major uri))
         @ ''/'' @ (if resource_id uri = WILDCARD_RESOURCE_ID uf then ''*''
                    else format_X (resource_id uri))"
    by (simp add: uri_to_zenoh_key_def Let_def)
qed (rule renders_format_X)+

text \<open>
  C6 on the address with entity id 0x12, the wildcard version and resource id 0x8001,
  under the default authority: the three segments that the theorem gives are the only
  strings that render the fields.
\<close>

theorem uri_to_zenoh_key_segments_witness:
  "uri_to_zenoh_key uf_FFFF ''device''
     \<lparr>authority_name = [], ue_id = 0x12, ue_version_major = 0xFF, resource_id = 0x8001\<rparr>
   = ''device/12/*/8001''"
proof -
  let ?u = "\<lparr>authority_name = [], ue_id = 0x12, ue_version_major = 0xFF, resource_id = 0x8001\<rparr>"
  from uri_to_zenoh_key_segments [of uf_FFFF "''device''" ?u]
  obtain e v r where k: "uri_to_zenoh_key uf_FFFF ''device'' ?u = ''device/'' @ e @ ''/'' @ v @ ''/'' @ r"
    and e: "renders 0xFFFF 0x12 e" and v: "renders 0xFF 0xFF v" and r: "renders 0xFFFF 0x8001 r"
    by (auto simp: uf_FFFF_def)
  from renders_unique [OF e] have "e = ''12''"
    by (simp add: format_X.simps hex_digit_def)
  moreover from renders_unique [OF v] have "v = ''*''"
    by simp
  moreover from renders_unique [OF r] have "r = ''8001''"
    by (simp add: format_X.simps hex_digit_def)
  ultimately show ?thesis using k by simp
qed

text \<open>
  Claim C3, as the code has it. When the destination is absent or is the address with
  every field at its default, the destination part of the key is the literal
  \<open>{}/{}/{}/{}\<close>, and the key is \<open>up/\<close>, the source segment, \<open>/\<close> and that literal.
\<close>

theorem to_zenoh_key_string_no_destination:
  "dst = None \<or> dst = Some UUri_default \<Longrightarrow>
     to_zenoh_key_string uf default_authority src dst
       = ''up/'' @ uri_to_zenoh_key uf default_authority src @ ''/'' @ ''{}/{}/{}/{}''"
  by (auto simp: to_zenoh_key_string_def Let_def)

text \<open>C3 as amended, on the default address as the destination.\<close>

theorem to_zenoh_key_string_no_destination_witness:
  "to_zenoh_key_string uf_FFFF ''vehicle'' (uuri_rid 0x8001) (Some UUri_default)
     = ''up/vehicle/12/1/8001/{}/{}/{}/{}''"
proof -
  have "uri_to_zenoh_key uf_FFFF ''vehicle'' (uuri_rid 0x8001) = ''vehicle/12/1/8001''"
    by (simp add: uri_to_zenoh_key_def uf_FFFF_def uuri_rid_def Let_def format_X.simps
          hex_digit_def)
  with to_zenoh_key_string_no_destination
         [of "Some UUri_default" uf_FFFF "''vehicle''" "uuri_rid 0x8001"]
  show ?thesis by simp
qed

text \<open>
  C3 as the specification states it fails: with no destination the key does not end in
  four \<open>*\<close> segments.
\<close>

theorem to_zenoh_key_string_no_destination_counterexample:
  "to_zenoh_key_string uf_FFFF ''vehicle'' (uuri_rid 0x8001) None
     \<noteq> ''up/'' @ uri_to_zenoh_key uf_FFFF ''vehicle'' (uuri_rid 0x8001) @ ''/'' @ ''*/*/*/*''
   \<and> to_zenoh_key_string uf_FFFF ''vehicle'' (uuri_rid 0x8001) None
       = ''up/vehicle/12/1/8001/{}/{}/{}/{}''"
  by (simp add: to_zenoh_key_string_def uri_to_zenoh_key_def uf_FFFF_def uuri_rid_def Let_def
        format_X.simps hex_digit_def)

section \<open>The priority table\<close>

text \<open>
  Claim C9. The lookup succeeds on each of the eight priorities, with CS0 to CS6 going
  to BACKGROUND, DATA_LOW, DATA, DATA_HIGH, INTERACTIVE_LOW, INTERACTIVE_HIGH and
  REAL_TIME, and the unspecified priority to DATA_LOW.
\<close>

theorem map_zenoh_priority_table:
  "map_zenoh_priority UPRIORITY_CS0 = Some BACKGROUND
   \<and> map_zenoh_priority UPRIORITY_CS1 = Some DATA_LOW
   \<and> map_zenoh_priority UPRIORITY_CS2 = Some DATA
   \<and> map_zenoh_priority UPRIORITY_CS3 = Some DATA_HIGH
   \<and> map_zenoh_priority UPRIORITY_CS4 = Some INTERACTIVE_LOW
   \<and> map_zenoh_priority UPRIORITY_CS5 = Some INTERACTIVE_HIGH
   \<and> map_zenoh_priority UPRIORITY_CS6 = Some REAL_TIME
   \<and> map_zenoh_priority UPRIORITY_UNSPECIFIED = Some DATA_LOW
   \<and> (\<forall>p. \<exists>z. map_zenoh_priority p = Some z)"
proof -
  have t: "map_zenoh_priority UPRIORITY_CS0 = Some BACKGROUND"
    "map_zenoh_priority UPRIORITY_CS1 = Some DATA_LOW"
    "map_zenoh_priority UPRIORITY_CS2 = Some DATA"
    "map_zenoh_priority UPRIORITY_CS3 = Some DATA_HIGH"
    "map_zenoh_priority UPRIORITY_CS4 = Some INTERACTIVE_LOW"
    "map_zenoh_priority UPRIORITY_CS5 = Some INTERACTIVE_HIGH"
    "map_zenoh_priority UPRIORITY_CS6 = Some REAL_TIME"
    "map_zenoh_priority UPRIORITY_UNSPECIFIED = Some DATA_LOW"
    by (simp_all add: map_zenoh_priority_def mapping_def)
  have "\<exists>z. map_zenoh_priority p = Some z" for p
    by (cases p) (simp_all add: t)
  with t show ?thesis by blast
qed

text \<open>The two scenarios of the specification, read off the table.\<close>

theorem map_zenoh_priority_table_witness:
  "map_zenoh_priority UPRIORITY_CS3 = Some DATA_HIGH
   \<and> map_zenoh_priority UPRIORITY_UNSPECIFIED = Some DATA_LOW"
  using map_zenoh_priority_table by blast

section \<open>The attribute envelope\<close>

lemma to_bytes_little_version: "to_bytes_little UATTRIBUTE_VERSION 1 = Some [1]"
  by (simp add: to_bytes_little_def UATTRIBUTE_VERSION_def)

lemma from_bytes_big_one: "from_bytes_big [1] = 1"
  by (simp add: from_bytes_big_def)

lemma try_body_nil:
  "attachment_try_body P [] =
     Inl (UStatusError_exn (from_code_message INVALID_ARGUMENT ''Unable to get the UAttributes version''))"
  by (simp add: attachment_try_body_def)

lemma try_body_version:
  "from_bytes_big c0 \<noteq> UATTRIBUTE_VERSION \<Longrightarrow>
     \<exists>m. attachment_try_body P (c0 # rest) = Inl (UStatusError_exn (from_code_message INVALID_ARGUMENT m))"
  by (simp add: attachment_try_body_def Let_def)

lemma try_body_single:
  "from_bytes_big c0 = UATTRIBUTE_VERSION \<Longrightarrow> attachment_try_body P [c0] = Inl IndexError"
  by (simp add: attachment_try_body_def Let_def)

lemma try_body_two:
  "from_bytes_big c0 = UATTRIBUTE_VERSION \<Longrightarrow>
     attachment_try_body P (c0 # c1 # rest) =
       (if c1 = []
        then Inl (UStatusError_exn (from_code_message INVALID_ARGUMENT ''Unable to get the UAttributes''))
        else case P c1 of Inl m \<Rightarrow> Inl (DecodeError m) | Inr u \<Rightarrow> Inr u)"
  by (simp add: attachment_try_body_def Let_def)

lemma attachment_to_uattributes_Inl:
  "attachment_to_uattributes s P chunks = Inl e \<Longrightarrow> get_code e = INVALID_ARGUMENT"
  by (auto simp: attachment_to_uattributes_def split: sum.splits)

lemma attachment_to_uattributes_Inr:
  "attachment_to_uattributes s P chunks = Inr a \<longleftrightarrow>
     (\<exists>c0 c1 rest. chunks = c0 # c1 # rest \<and> from_bytes_big c0 = UATTRIBUTE_VERSION
        \<and> c1 \<noteq> [] \<and> P c1 = Inr a)"
proof (cases chunks)
  case Nil
  then show ?thesis
    by (simp add: attachment_to_uattributes_def try_body_nil)
next
  case (Cons c0 tl)
  show ?thesis
  proof (cases "from_bytes_big c0 = UATTRIBUTE_VERSION")
    case False
    with try_body_version [OF False, of P tl] Cons show ?thesis
      by (auto simp: attachment_to_uattributes_def)
  next
    case True
    show ?thesis
    proof (cases tl)
      case Nil
      with Cons True show ?thesis
        by (simp add: attachment_to_uattributes_def try_body_single)
    next
      case (Cons c1 rest)
      with \<open>chunks = c0 # tl\<close> True show ?thesis
        by (simp add: attachment_to_uattributes_def try_body_two split: sum.splits)
    qed
  qed
qed

text \<open>
  Claim C8. The encoder returns two chunks, in this order: the single byte 1, the
  supported version, and the serialised attributes.
\<close>

theorem uattributes_to_attachment_chunks:
  "uattributes_to_attachment SerializeToString uattributes
     = Some [[1], SerializeToString uattributes]"
  unfolding uattributes_to_attachment_def to_bytes_little_version
  by simp

text \<open>C8 on the priority codec.\<close>

theorem uattributes_to_attachment_chunks_witness:
  "uattributes_to_attachment SerializeToString_priority UPRIORITY_CS3 = Some [[1], [0x28, 4]]"
  using uattributes_to_attachment_chunks [of SerializeToString_priority UPRIORITY_CS3]
  by (simp add: SerializeToString_priority_def)

text \<open>
  Claim C4. The decoder returns an attributes value exactly when there are at least two
  chunks, the first denotes the version 1, the second is not empty and parses, and the
  value is the parsed one. In every other case (no chunk, another version, no second
  chunk or an empty one, a parse failure) it raises an INVALID_ARGUMENT error, and for a
  parse failure the error's message ends with the parser's message.
\<close>

theorem attachment_to_uattributes_result:
  "(attachment_to_uattributes s P chunks = Inr a \<longleftrightarrow>
      (\<exists>c0 c1 rest. chunks = c0 # c1 # rest \<and> from_bytes_big c0 = 1 \<and> c1 \<noteq> [] \<and> P c1 = Inr a))
   \<and> (chunks = []
        \<or> (\<exists>c0 rest. chunks = c0 # rest \<and> from_bytes_big c0 \<noteq> 1)
        \<or> (\<exists>c0. chunks = [c0])
        \<or> (\<exists>c0 rest. chunks = c0 # [] # rest)
        \<or> (\<exists>c0 c1 rest m. chunks = c0 # c1 # rest \<and> P c1 = Inl m)
      \<longrightarrow> (\<exists>msg. attachment_to_uattributes s P chunks = Inl (from_code_message INVALID_ARGUMENT msg)))
   \<and> (\<forall>c0 c1 rest m. chunks = c0 # c1 # rest \<and> from_bytes_big c0 = 1 \<and> c1 \<noteq> [] \<and> P c1 = Inl m
        \<longrightarrow> attachment_to_uattributes s P chunks = Inl (failed_to_convert m))"
proof -
  have 1: "attachment_to_uattributes s P chunks = Inr a \<longleftrightarrow>
      (\<exists>c0 c1 rest. chunks = c0 # c1 # rest \<and> from_bytes_big c0 = 1 \<and> c1 \<noteq> [] \<and> P c1 = Inr a)"
    using attachment_to_uattributes_Inr [of s P chunks a] by (simp add: UATTRIBUTE_VERSION_def)
  have inl: "\<exists>msg. attachment_to_uattributes s P chunks = Inl (from_code_message INVALID_ARGUMENT msg)"
    if "\<forall>b. attachment_to_uattributes s P chunks \<noteq> Inr b"
  proof -
    from that obtain e where e: "attachment_to_uattributes s P chunks = Inl e"
      by (cases "attachment_to_uattributes s P chunks") auto
    with attachment_to_uattributes_Inl [OF e] show ?thesis
      by (cases e) auto
  qed
  have 2: "\<exists>msg. attachment_to_uattributes s P chunks = Inl (from_code_message INVALID_ARGUMENT msg)"
    if "chunks = []
        \<or> (\<exists>c0 rest. chunks = c0 # rest \<and> from_bytes_big c0 \<noteq> 1)
        \<or> (\<exists>c0. chunks = [c0])
        \<or> (\<exists>c0 rest. chunks = c0 # [] # rest)
        \<or> (\<exists>c0 c1 rest m. chunks = c0 # c1 # rest \<and> P c1 = Inl m)"
  proof (rule inl)
    from that show "\<forall>b. attachment_to_uattributes s P chunks \<noteq> Inr b"
      unfolding attachment_to_uattributes_Inr UATTRIBUTE_VERSION_def by auto
  qed
  have 3: "attachment_to_uattributes s P chunks = Inl (failed_to_convert m)"
    if "chunks = c0 # c1 # rest \<and> from_bytes_big c0 = 1 \<and> c1 \<noteq> [] \<and> P c1 = Inl m" for c0 c1 rest m
    using that
    by (simp add: attachment_to_uattributes_def try_body_two UATTRIBUTE_VERSION_def
          failed_to_convert_def str_exn_def)
  from 1 2 3 show ?thesis by blast
qed


text \<open>
  C4 on a well-formed envelope, on no chunk, on version 2, on a single chunk, on an empty
  second chunk and on a second chunk that does not parse, for any \<^verbatim>\<open>str\<close> of the
  error and any parser that agrees with \<open>ParseFromString_known\<close>.
\<close>

theorem attachment_to_uattributes_result_witness:
  "\<forall>s R m.
     attachment_to_uattributes s (ParseFromString_known R m) [[1], [0x28, 4]] = Inr UPRIORITY_CS3
   \<and> (\<exists>msg. attachment_to_uattributes s (ParseFromString_known R m) []
          = Inl (from_code_message INVALID_ARGUMENT msg))
   \<and> (\<exists>msg. attachment_to_uattributes s (ParseFromString_known R m) [[2], [0x28, 4]]
          = Inl (from_code_message INVALID_ARGUMENT msg))
   \<and> (\<exists>msg. attachment_to_uattributes s (ParseFromString_known R m) [[1]]
          = Inl (from_code_message INVALID_ARGUMENT msg))
   \<and> (\<exists>msg. attachment_to_uattributes s (ParseFromString_known R m) [[1], []]
          = Inl (from_code_message INVALID_ARGUMENT msg))
   \<and> attachment_to_uattributes s (ParseFromString_known R m) [[1], [0x28]]
          = Inl (failed_to_convert m)"
proof (intro allI)
  fix s :: "UStatusError \<Rightarrow> string" and R :: "bytes \<Rightarrow> string + UPriority" and m :: string
  let ?P = "ParseFromString_known R m"
  note r = attachment_to_uattributes_result [of s ?P _ UPRIORITY_CS3]
  have v1: "from_bytes_big [1] = 1" and v2: "from_bytes_big [2] \<noteq> 1"
    by (simp_all add: from_bytes_big_def)
  have p: "?P [0x28, 4] = Inr UPRIORITY_CS3" and q: "?P [0x28] = Inl m"
    by (simp_all add: ParseFromString_known_def)
  have "attachment_to_uattributes s ?P [[1], [0x28, 4]] = Inr UPRIORITY_CS3"
    using r [of "[[1], [0x28, 4]]"] v1 p by simp
  moreover have "\<exists>msg. attachment_to_uattributes s ?P [] = Inl (from_code_message INVALID_ARGUMENT msg)"
    using r [of "[]"] by simp
  moreover have "\<exists>msg. attachment_to_uattributes s ?P [[2], [0x28, 4]]
          = Inl (from_code_message INVALID_ARGUMENT msg)"
    using r [of "[[2], [0x28, 4]]"] v2 by simp
  moreover have "\<exists>msg. attachment_to_uattributes s ?P [[1]]
          = Inl (from_code_message INVALID_ARGUMENT msg)"
    using r [of "[[1]]"] by simp
  moreover have "\<exists>msg. attachment_to_uattributes s ?P [[1], []]
          = Inl (from_code_message INVALID_ARGUMENT msg)"
    using r [of "[[1], []]"] by simp
  moreover have "attachment_to_uattributes s ?P [[1], [0x28]] = Inl (failed_to_convert m)"
    using r [of "[[1], [0x28]]"] v1 q by simp
  ultimately show "attachment_to_uattributes s ?P [[1], [0x28, 4]] = Inr UPRIORITY_CS3
   \<and> (\<exists>msg. attachment_to_uattributes s ?P [] = Inl (from_code_message INVALID_ARGUMENT msg))
   \<and> (\<exists>msg. attachment_to_uattributes s ?P [[2], [0x28, 4]]
          = Inl (from_code_message INVALID_ARGUMENT msg))
   \<and> (\<exists>msg. attachment_to_uattributes s ?P [[1]]
          = Inl (from_code_message INVALID_ARGUMENT msg))
   \<and> (\<exists>msg. attachment_to_uattributes s ?P [[1], []]
          = Inl (from_code_message INVALID_ARGUMENT msg))
   \<and> attachment_to_uattributes s ?P [[1], [0x28]] = Inl (failed_to_convert m)"
    by blast
qed

text \<open>
  Claim C5, as the code has it. Encoding an attributes value and decoding the result
  gives the value back exactly when its serialised form is not empty and the parser
  reads the value from it; a value whose serialised form is empty is rejected by the
  decoder with an INVALID_ARGUMENT error.
\<close>

theorem encode_decode_roundtrip:
  "\<exists>chunks. uattributes_to_attachment SerializeToString a = Some chunks
     \<and> (attachment_to_uattributes str_status ParseFromString chunks = Inr a
          \<longleftrightarrow> SerializeToString a \<noteq> [] \<and> ParseFromString (SerializeToString a) = Inr a)
     \<and> (SerializeToString a = [] \<longrightarrow>
          (\<exists>msg. attachment_to_uattributes str_status ParseFromString chunks
                   = Inl (from_code_message INVALID_ARGUMENT msg)))"
proof -
  let ?chunks = "[[1], SerializeToString a]"
  have e: "uattributes_to_attachment SerializeToString a = Some ?chunks"
    unfolding uattributes_to_attachment_def to_bytes_little_version by simp
  have r: "attachment_to_uattributes str_status ParseFromString ?chunks = Inr a
          \<longleftrightarrow> SerializeToString a \<noteq> [] \<and> ParseFromString (SerializeToString a) = Inr a"
    unfolding attachment_to_uattributes_Inr
    by (simp add: from_bytes_big_one UATTRIBUTE_VERSION_def)
  have z: "\<exists>msg. attachment_to_uattributes str_status ParseFromString ?chunks
                   = Inl (from_code_message INVALID_ARGUMENT msg)"
    if "SerializeToString a = []"
  proof -
    from that have "attachment_to_uattributes str_status ParseFromString ?chunks
      = Inl (failed_to_convert
               (str_status (from_code_message INVALID_ARGUMENT ''Unable to get the UAttributes'')))"
      by (simp add: attachment_to_uattributes_def try_body_two from_bytes_big_one
            UATTRIBUTE_VERSION_def failed_to_convert_def str_exn_def)
    then show ?thesis
      by (simp add: failed_to_convert_def)
  qed
  from e r z show ?thesis by blast
qed

text \<open>
  C5 as amended, on the message with priority CS3, which comes back, and on the default
  message, which is rejected.
\<close>

theorem encode_decode_roundtrip_witness:
  "\<forall>s R m.
     uattributes_to_attachment SerializeToString_priority UPRIORITY_CS3 = Some [[1], [0x28, 4]]
   \<and> attachment_to_uattributes s (ParseFromString_known R m) [[1], [0x28, 4]] = Inr UPRIORITY_CS3
   \<and> uattributes_to_attachment SerializeToString_priority UPRIORITY_UNSPECIFIED = Some [[1], []]
   \<and> (\<exists>msg. attachment_to_uattributes s (ParseFromString_known R m) [[1], []]
          = Inl (from_code_message INVALID_ARGUMENT msg))"
proof (intro allI)
  fix s :: "UStatusError \<Rightarrow> string" and R :: "bytes \<Rightarrow> string + UPriority" and m :: string
  let ?P = "ParseFromString_known R m"
  have c3: "SerializeToString_priority UPRIORITY_CS3 = [0x28, 4]"
    and un: "SerializeToString_priority UPRIORITY_UNSPECIFIED = []"
    by (simp_all add: SerializeToString_priority_def)
  have p: "?P [0x28, 4] = Inr UPRIORITY_CS3"
    by (simp add: ParseFromString_known_def)
  from encode_decode_roundtrip
         [where SerializeToString = SerializeToString_priority and a = UPRIORITY_CS3
            and str_status = s and ParseFromString = ?P]
  obtain chunks where "uattributes_to_attachment SerializeToString_priority UPRIORITY_CS3 = Some chunks"
    and "attachment_to_uattributes s ?P chunks = Inr UPRIORITY_CS3"
    unfolding c3 using p by auto
  moreover have "uattributes_to_attachment SerializeToString_priority UPRIORITY_CS3 = Some [[1], [0x28, 4]]"
    unfolding uattributes_to_attachment_def to_bytes_little_version c3 by simp
  ultimately have 1: "attachment_to_uattributes s ?P [[1], [0x28, 4]] = Inr UPRIORITY_CS3"
    and 2: "uattributes_to_attachment SerializeToString_priority UPRIORITY_CS3 = Some [[1], [0x28, 4]]"
    by simp_all
  from encode_decode_roundtrip
         [where SerializeToString = SerializeToString_priority and a = UPRIORITY_UNSPECIFIED
            and str_status = s and ParseFromString = ?P]
  obtain chunks' where "uattributes_to_attachment SerializeToString_priority UPRIORITY_UNSPECIFIED = Some chunks'"
    and "\<exists>msg. attachment_to_uattributes s ?P chunks' = Inl (from_code_message INVALID_ARGUMENT msg)"
    unfolding un by auto
  moreover have "uattributes_to_attachment SerializeToString_priority UPRIORITY_UNSPECIFIED = Some [[1], []]"
    unfolding uattributes_to_attachment_def to_bytes_little_version un by simp
  ultimately have 3: "uattributes_to_attachment SerializeToString_priority UPRIORITY_UNSPECIFIED = Some [[1], []]"
    and 4: "\<exists>msg. attachment_to_uattributes s ?P [[1], []] = Inl (from_code_message INVALID_ARGUMENT msg)"
    by simp_all
  from 1 2 3 4
  show "uattributes_to_attachment SerializeToString_priority UPRIORITY_CS3 = Some [[1], [0x28, 4]]
   \<and> attachment_to_uattributes s ?P [[1], [0x28, 4]] = Inr UPRIORITY_CS3
   \<and> uattributes_to_attachment SerializeToString_priority UPRIORITY_UNSPECIFIED = Some [[1], []]
   \<and> (\<exists>msg. attachment_to_uattributes s ?P [[1], []]
          = Inl (from_code_message INVALID_ARGUMENT msg))"
    by blast
qed

text \<open>
  C5 as the specification states it fails on the default attributes: they serialise to
  no bytes, and the decoder rejects the empty second chunk before any parser runs, so
  no parser gives them back.
\<close>

theorem encode_decode_default_counterexample:
  "uattributes_to_attachment SerializeToString_priority UPRIORITY_UNSPECIFIED = Some [[1], []]
   \<and> (\<forall>s P. attachment_to_uattributes s P [[1], []] \<noteq> Inr UPRIORITY_UNSPECIFIED)
   \<and> (\<forall>s (P :: bytes \<Rightarrow> string + UPriority).
         \<exists>msg. attachment_to_uattributes s P [[1], []]
                 = Inl (from_code_message INVALID_ARGUMENT msg))"
proof -
  have "uattributes_to_attachment SerializeToString_priority UPRIORITY_UNSPECIFIED = Some [[1], []]"
    unfolding uattributes_to_attachment_def to_bytes_little_version
    by (simp add: SerializeToString_priority_def)
  moreover have "attachment_to_uattributes s P [[1], []]
       = Inl (failed_to_convert
                (s (from_code_message INVALID_ARGUMENT ''Unable to get the UAttributes'')))"
    for s and P :: "bytes \<Rightarrow> string + UPriority"
    by (simp add: attachment_to_uattributes_def try_body_two from_bytes_big_one
          UATTRIBUTE_VERSION_def failed_to_convert_def str_exn_def)
  ultimately show ?thesis
    by (simp add: failed_to_convert_def)
qed

end
